theory Spec2Isabelle
  imports Complex_Main
begin

section \<open>Drowsiness detector: the frame loop's state machine\<close>

text \<open>
  The module-level constants of \<^verbatim>\<open>drowsiness_detector.py\<close>. The eye aspect ratio (EAR)
  is a Python float; it is only ever compared with the threshold, so it is modelled as a
  real number. \<^verbatim>\<open>COUNTER\<close> is an unbounded Python integer.
\<close>

definition EYE_THRESHOLD :: real where
  "EYE_THRESHOLD = 68 / 100"

definition NUM_CONSECUTIVE_FRAMES :: int where
  "NUM_CONSECUTIVE_FRAMES = 100"

text \<open>
  The globals the frame loop mutates. \<open>ALARM_THREAD\<close> holds the thread object created last
  (\<open>None\<close> at startup); a thread is identified by its position in the order of creation.
  \<open>threads_started\<close> is the number of calls of \<^verbatim>\<open>ALARM_THREAD.start()\<close> made so far: it
  records the effect of starting a background task.
\<close>

record det_state =
  COUNTER :: int
  ALARM_ON :: bool
  ALARM_THREAD :: "nat option"
  threads_started :: nat

definition init_state :: det_state where
  "init_state = \<lparr>COUNTER = 0, ALARM_ON = False, ALARM_THREAD = None, threads_started = 0\<rparr>"

text \<open>
  Lines 343 to 369: the body of the loop over the detected faces, for one face whose
  averaged EAR is \<open>ear\<close>. The threshold and the number of frames are parameters; the
  program runs it at \<open>EYE_THRESHOLD\<close> and \<open>NUM_CONSECUTIVE_FRAMES\<close>. Drawing on the frame
  and printing are left out.
\<close>

definition process_ear :: "real \<Rightarrow> int \<Rightarrow> real \<Rightarrow> det_state \<Rightarrow> det_state" where
  "process_ear thr n ear s =
     (if ear < thr then
        (let s1 = s\<lparr>COUNTER := COUNTER s + 1\<rparr> in
         if n \<le> COUNTER s1 then
           (if \<not> ALARM_ON s1 then
              s1\<lparr>ALARM_ON := True,
                 ALARM_THREAD := Some (threads_started s1),
                 threads_started := Suc (threads_started s1)\<rparr>
            else s1)
         else s1)
      else
        (let s1 = (if ALARM_ON s then s\<lparr>ALARM_ON := False\<rparr> else s) in
         s1\<lparr>COUNTER := 0\<rparr>))"

text \<open>
  What one turn of \<^verbatim>\<open>while True\<close> gets from the camera and the face mesh: no frame at
  all (\<^verbatim>\<open>frame is None\<close>, the loop continues), or the detection result, given as the EAR
  of each face of \<^verbatim>\<open>results.multi_face_landmarks\<close>. An empty (or absent) list of faces is
  the "no face detected" frame.
\<close>

datatype frame = NoFrame | Detection "real list"

fun run_ears :: "real \<Rightarrow> int \<Rightarrow> det_state \<Rightarrow> real list \<Rightarrow> det_state" where
  "run_ears thr n s [] = s"
| "run_ears thr n s (e # es) = run_ears thr n (process_ear thr n e s) es"

definition process_frame :: "real \<Rightarrow> int \<Rightarrow> frame \<Rightarrow> det_state \<Rightarrow> det_state" where
  "process_frame thr n fr s =
     (case fr of
        NoFrame \<Rightarrow> s
      | Detection ears \<Rightarrow> (if ears \<noteq> [] then run_ears thr n s ears else s))"

text \<open>The frame loop, over the frames read until the quit key.\<close>

fun main_loop :: "real \<Rightarrow> int \<Rightarrow> det_state \<Rightarrow> frame list \<Rightarrow> det_state" where
  "main_loop thr n s [] = s"
| "main_loop thr n s (f # fs) = main_loop thr n (process_frame thr n f s) fs"

text \<open>The state after each frame, as the overlay shows it frame by frame.\<close>

fun trace_loop :: "real \<Rightarrow> int \<Rightarrow> det_state \<Rightarrow> frame list \<Rightarrow> det_state list" where
  "trace_loop thr n s [] = []"
| "trace_loop thr n s (f # fs) =
     (let s' = process_frame thr n f s in s' # trace_loop thr n s' fs)"

text \<open>The EAR values of the frames in which a face was detected, in order.\<close>

fun ears_of :: "frame \<Rightarrow> real list" where
  "ears_of NoFrame = []"
| "ears_of (Detection ears) = ears"

definition ear_values :: "frame list \<Rightarrow> real list" where
  "ear_values fs = concat (map ears_of fs)"

definition low_suffix :: "real \<Rightarrow> real list \<Rightarrow> real list" where
  "low_suffix thr es = takeWhile (\<lambda>e. e < thr) (rev es)"

text \<open>The relation between the two globals that the loop keeps.\<close>

definition alarm_inv :: "int \<Rightarrow> det_state \<Rightarrow> bool" where
  "alarm_inv n s = (ALARM_ON s = (n \<le> COUNTER s))"

text \<open>The program as it runs: the loop at the module's own constants, from startup.\<close>

definition frame_loop :: "frame list \<Rightarrow> det_state" where
  "frame_loop fs = main_loop EYE_THRESHOLD NUM_CONSECUTIVE_FRAMES init_state fs"

section \<open>The eye aspect ratio\<close>

text \<open>
  The exceptions that matter below; all of them are subclasses of Python's
  \<^verbatim>\<open>Exception\<close>, so \<^verbatim>\<open>except Exception\<close> catches each one. A computation that may
  raise returns \<open>exn + 'a\<close>, with \<open>Inl\<close> for the exception.
\<close>

datatype exn = ImportError | FileNotFoundError | IndexError | OtherException

definition try_then :: "exn + 'a \<Rightarrow> ('a \<Rightarrow> exn + 'b) \<Rightarrow> exn + 'b" where
  "try_then r k = (case r of Inl e \<Rightarrow> Inl e | Inr x \<Rightarrow> k x)"

text \<open>
  A landmark is read through its \<^verbatim>\<open>x\<close> and \<^verbatim>\<open>y\<close> attributes only. Indexing a sequence
  with a position it does not have raises \<^verbatim>\<open>IndexError\<close>; the positions used are the
  non-negative constants of the source. Coordinates are floats in the program and real
  numbers here.
\<close>

type_synonym point = "real \<times> real"

definition index :: "'a list \<Rightarrow> nat \<Rightarrow> exn + 'a" where
  "index xs i = (if i < length xs then Inr (xs ! i) else Inl IndexError)"

text \<open>\<^verbatim>\<open>scipy.spatial.distance.euclidean\<close> on two points of the plane.\<close>

definition euclidean :: "point \<Rightarrow> point \<Rightarrow> real" where
  "euclidean u v = sqrt ((fst u - fst v)\<^sup>2 + (snd u - snd v)\<^sup>2)"

text \<open>Lines 240 to 244: the loop collecting the coordinates of the eye points.\<close>

fun eye_coords :: "point list \<Rightarrow> nat list \<Rightarrow> exn + point list" where
  "eye_coords landmarks [] = Inr []"
| "eye_coords landmarks (p # ps) =
     try_then (index landmarks p) (\<lambda>xy.
     try_then (eye_coords landmarks ps) (\<lambda>cs. Inr (xy # cs)))"

text \<open>
  Lines 246 to 262. The order of \<^verbatim>\<open>eye_points\<close> is documented at line 41 as outer corner,
  top, inner corner, bottom, top, bottom; the function pairs positions 1 and 5, 2 and 4,
  0 and 3.
\<close>

definition calculate_eye_ratio :: "point list \<Rightarrow> nat list \<Rightarrow> exn + real" where
  "calculate_eye_ratio landmarks eye_points =
     try_then (eye_coords landmarks eye_points) (\<lambda>cs.
     try_then (index cs 1) (\<lambda>c1.
     try_then (index cs 5) (\<lambda>c5.
     try_then (index cs 2) (\<lambda>c2.
     try_then (index cs 4) (\<lambda>c4.
     try_then (index cs 0) (\<lambda>c0.
     try_then (index cs 3) (\<lambda>c3.
       (let A = euclidean c1 c5;
            B = euclidean c2 c4;
            C = euclidean c0 c3
        in Inr (if C > 0 then (A + B) / (2 * C) else 0)))))))))"

text \<open>
  The ratio as the specification words it, for the six points in their documented
  order: the two lid openings over twice the corner-to-corner width, and 0 when that
  width is 0. It is stated for comparison with \<open>calculate_eye_ratio\<close>.
\<close>

definition ear_formula :: "point \<Rightarrow> point \<Rightarrow> point \<Rightarrow> point \<Rightarrow> point \<Rightarrow> point \<Rightarrow> real" where
  "ear_formula outerCorner topA innerCorner bottomA topB bottomB =
     (if euclidean outerCorner innerCorner > 0
      then (euclidean topA bottomA + euclidean topB bottomB)
             / (2 * euclidean outerCorner innerCorner)
      else 0)"

section \<open>The audio back ends\<close>

definition ALARM_FILE :: string where
  "ALARM_FILE = ''G:/Guilherme/Sigmoidal/Masterclass Visao/sonolencia/buzina.wav''"

text \<open>
  The string operations the source uses: \<^verbatim>\<open>str.lower\<close> (on the ASCII letters, which is
  all that the file name and the platform names contain), \<^verbatim>\<open>str.endswith\<close>, the
  substring test \<^verbatim>\<open>in\<close>, and the truth value of \<^verbatim>\<open>AUDIO_LIBRARY\<close> (\<^verbatim>\<open>None\<close> and the
  empty string are false).
\<close>

definition lower_char :: "char \<Rightarrow> char" where
  "lower_char c =
     (case map_of (zip ''ABCDEFGHIJKLMNOPQRSTUVWXYZ'' ''abcdefghijklmnopqrstuvwxyz'') c of
        Some l \<Rightarrow> l
      | None \<Rightarrow> c)"

definition lower :: "string \<Rightarrow> string" where
  "lower s = map lower_char s"

definition endswith :: "string \<Rightarrow> string \<Rightarrow> bool" where
  "endswith s suf = (length suf \<le> length s \<and> drop (length s - length suf) s = suf)"

fun contains :: "string \<Rightarrow> string \<Rightarrow> bool" where
  "contains sub [] = (sub = [])"
| "contains sub (c # cs) = (take (length sub) (c # cs) = sub \<or> contains sub cs)"

definition truthy :: "string option \<Rightarrow> bool" where
  "truthy v = (case v of None \<Rightarrow> False | Some s \<Rightarrow> s \<noteq> [])"

text \<open>
  What the audio code meets outside the program, one field for each call that can fail:
  \<open>None\<close> when the call returns, \<open>Some e\<close> when it raises \<open>e\<close>. \<open>mixer_polls\<close> lists, for
  the turns of the wait loop of the pygame branch, what \<^verbatim>\<open>pygame.mixer.get_busy()\<close>
  gives and the value of \<^verbatim>\<open>ALARM_ON\<close> read next; when the list is used up the sound is
  over and the mixer is no longer busy. The \<open>on_\<close> fields are the values of the global
  \<^verbatim>\<open>ALARM_ON\<close> that the alarm thread reads inside one turn of its loop; the frame loop
  may change the flag between any two reads, so each read has a field of its own.
  Imports of the standard library, \<^verbatim>\<open>time.sleep\<close> and \<^verbatim>\<open>print\<close> do not raise.
\<close>

record audio_env =
  path_exists :: bool
  import_pygame :: "exn option"
  mixer_get_init :: "exn + bool"
  mixer_init :: "exn option"
  mixer_Sound :: "exn option"
  sound_play :: "exn option"
  mixer_polls :: "((exn + bool) \<times> bool) list"
  import_playsound :: "exn option"
  playsound_playsound :: "exn option"
  import_pydub :: "exn option"
  AudioSegment_from_file :: "exn option"
  pydub_play :: "exn option"
  import_winsound :: "exn option"
  winsound_PlaySound :: "exn option"
  winsound_Beep :: "exn option"
  platform_system :: string
  stdout_bell :: "nat \<Rightarrow> exn option"
  run_beep :: "exn option"
  run_speaker_test :: "exn option"
  run_say :: "exn option"
  on_at_beep :: bool
  on_at_bell :: bool
  on_in_bell_loop :: "nat \<Rightarrow> bool"
  on_at_command :: bool

text \<open>Two statements in a row inside one \<^verbatim>\<open>try\<close>: the second runs if the first returns.\<close>

definition after :: "exn option \<Rightarrow> exn option \<Rightarrow> exn option" where
  "after a b = (case a of None \<Rightarrow> b | Some e \<Rightarrow> Some e)"

text \<open>
  Lines 46 to 115. The function takes the global \<^verbatim>\<open>AUDIO_LIBRARY\<close> and gives back its
  return value and the global after the call. Each \<^verbatim>\<open>except\<close> clause only prints, so a
  block that raises falls through to the next one.
\<close>

definition check_audio_library ::
  "audio_env \<Rightarrow> string option \<Rightarrow> string option \<times> string option" where
  "check_audio_library env AUDIO_LIBRARY =
     (if \<not> path_exists env then (None, AUDIO_LIBRARY)
      else case after (import_pygame env) (after (mixer_init env) (mixer_Sound env)) of
        None \<Rightarrow> (Some ''pygame'', Some ''pygame'')
      | Some e1 \<Rightarrow>
     (case import_playsound env of
        None \<Rightarrow> (Some ''playsound'', Some ''playsound'')
      | Some e2 \<Rightarrow>
     (case after (import_pydub env) (AudioSegment_from_file env) of
        None \<Rightarrow> (Some ''pydub'', Some ''pydub'')
      | Some e3 \<Rightarrow>
     (case import_winsound env of
        None \<Rightarrow>
          if platform_system env = ''Windows'' \<and> endswith (lower ALARM_FILE) ''.wav''
          then (Some ''winsound'', Some ''winsound'')
          else (None, AUDIO_LIBRARY)
      | Some e4 \<Rightarrow> (None, AUDIO_LIBRARY)))))"

text \<open>
  The selection as the specification words it: every mechanism, in order, tries to load
  the resource, the first that succeeds is the back end, and there is none when the
  resource is missing or no mechanism loads it. For pygame and pydub loading is the call
  the source makes; playsound and winsound have no call that only loads, so their
  attempt is the call that opens the file to play it. It is stated for comparison with
  \<open>check_audio_library\<close>.
\<close>

definition load_results :: "audio_env \<Rightarrow> (string \<times> bool) list" where
  "load_results env =
     [(''pygame'', after (import_pygame env) (after (mixer_init env) (mixer_Sound env)) = None),
      (''playsound'', after (import_playsound env) (playsound_playsound env) = None),
      (''pydub'', after (import_pydub env) (AudioSegment_from_file env) = None),
      (''winsound'', after (import_winsound env) (winsound_PlaySound env) = None)]"

definition select_backend_spec :: "audio_env \<Rightarrow> string option" where
  "select_backend_spec env =
     (if \<not> path_exists env then None
      else map_option fst (find snd (load_results env)))"

text \<open>Lines 132 and 133: wait for the sound to finish, or for the alarm to be turned off.\<close>

fun wait_while_busy :: "((exn + bool) \<times> bool) list \<Rightarrow> exn option" where
  "wait_while_busy [] = None"
| "wait_while_busy ((Inl e, on) # ps) = Some e"
| "wait_while_busy ((Inr busy, on) # ps) = (if busy \<and> on then wait_while_busy ps else None)"

text \<open>
  Lines 125 to 153, the body of the \<^verbatim>\<open>try\<close> of \<^verbatim>\<open>play_audio_file\<close>: it raises, returns
  \<^verbatim>\<open>True\<close>, or (no branch taken) runs off its end.
\<close>

definition play_audio_file_try :: "audio_env \<Rightarrow> string option \<Rightarrow> exn + bool option" where
  "play_audio_file_try env AUDIO_LIBRARY =
     (if AUDIO_LIBRARY = Some ''pygame'' then
        (case import_pygame env of Some e \<Rightarrow> Inl e | None \<Rightarrow>
         try_then (mixer_get_init env) (\<lambda>inited.
           case after (if \<not> inited then mixer_init env else None)
                  (after (mixer_Sound env)
                  (after (sound_play env) (wait_while_busy (mixer_polls env)))) of
             Some e \<Rightarrow> Inl e
           | None \<Rightarrow> Inr (Some True)))
      else if AUDIO_LIBRARY = Some ''playsound'' then
        (case after (import_playsound env) (playsound_playsound env) of
           Some e \<Rightarrow> Inl e | None \<Rightarrow> Inr (Some True))
      else if AUDIO_LIBRARY = Some ''pydub'' then
        (case after (import_pydub env)
                (after (AudioSegment_from_file env) (pydub_play env)) of
           Some e \<Rightarrow> Inl e | None \<Rightarrow> Inr (Some True))
      else if AUDIO_LIBRARY = Some ''winsound'' then
        (case after (import_winsound env) (winsound_PlaySound env) of
           Some e \<Rightarrow> Inl e | None \<Rightarrow> Inr (Some True))
      else Inr None)"

text \<open>
  Lines 118 to 158: \<^verbatim>\<open>except Exception\<close> prints the error, and the function then
  returns \<^verbatim>\<open>False\<close>. The result type keeps the exception case, so that an exception
  leaving the function would show as \<open>Inl\<close>.
\<close>

definition play_audio_file :: "audio_env \<Rightarrow> string option \<Rightarrow> exn + bool" where
  "play_audio_file env AUDIO_LIBRARY =
     (case play_audio_file_try env AUDIO_LIBRARY of
        Inl e \<Rightarrow> Inr False
      | Inr (Some b) \<Rightarrow> Inr b
      | Inr None \<Rightarrow> Inr False)"

text \<open>
  The alarm mechanisms of \<^verbatim>\<open>trigger_continuous_alarm\<close>: the audio file, then the system
  fallbacks in the order of the source.
\<close>

datatype mechanism = AudioFile | ToneBeep | TerminalBell | ShellCommand | VisualAlert

definition fallback_order :: "mechanism list" where
  "fallback_order = [ToneBeep, TerminalBell, ShellCommand, VisualAlert]"

text \<open>Lines 193 to 198: the terminal bell, at most once for each position given.\<close>

fun bell_loop :: "audio_env \<Rightarrow> nat list \<Rightarrow> exn option" where
  "bell_loop env [] = None"
| "bell_loop env (i # rest) =
     (if \<not> on_in_bell_loop env i then None
      else case stdout_bell env i of Some e \<Rightarrow> Some e | None \<Rightarrow> bell_loop env rest)"

text \<open>
  The bodies of the three \<^verbatim>\<open>try\<close> blocks of the fallbacks (lines 177 to 183, 189 to 200
  and 204 to 221): \<open>None\<close> when the body reaches its \<^verbatim>\<open>continue\<close>, \<open>Some e\<close> when it
  raises \<open>e\<close>. In the third, only \<^verbatim>\<open>FileNotFoundError\<close> from \<^verbatim>\<open>beep\<close> leads to
  \<^verbatim>\<open>speaker-test\<close>.
\<close>

definition tone_beep_try :: "audio_env \<Rightarrow> exn option" where
  "tone_beep_try env =
     after (import_winsound env) (if on_at_beep env then winsound_Beep env else None)"

definition terminal_bell_try :: "audio_env \<Rightarrow> exn option" where
  "terminal_bell_try env = (if on_at_bell env then bell_loop env [0, 1, 2] else None)"

definition shell_command_try :: "audio_env \<Rightarrow> exn option" where
  "shell_command_try env =
     (let system = lower (platform_system env) in
      if on_at_command env then
        (if contains ''linux'' system then
           (case run_beep env of
              Some FileNotFoundError \<Rightarrow> run_speaker_test env
            | r \<Rightarrow> r)
         else if contains ''darwin'' system then run_say env
         else None)
      else None)"

text \<open>
  Lines 170 to 228: one turn of \<^verbatim>\<open>while ALARM_ON\<close>. The result lists the mechanisms
  whose code the turn entered, in order. Every \<^verbatim>\<open>except\<close> clause only prints (or
  passes), so a block that raises is followed by the next block. The last statement
  prints the alert if the flag is still set; it ends the turn either way.
\<close>

definition alarm_iteration :: "audio_env \<Rightarrow> string option \<Rightarrow> exn + mechanism list" where
  "alarm_iteration env AUDIO_LIBRARY =
     (let tried = (if truthy AUDIO_LIBRARY then [AudioFile] else []) in
      try_then (if truthy AUDIO_LIBRARY then play_audio_file env AUDIO_LIBRARY else Inr False)
        (\<lambda>played.
          if played then Inr tried
          else case tone_beep_try env of
            None \<Rightarrow> Inr (tried @ [ToneBeep])
          | Some e1 \<Rightarrow>
         (case terminal_bell_try env of
            None \<Rightarrow> Inr (tried @ [ToneBeep, TerminalBell])
          | Some e2 \<Rightarrow>
         (case shell_command_try env of
            None \<Rightarrow> Inr (tried @ [ToneBeep, TerminalBell, ShellCommand])
          | Some e3 \<Rightarrow> Inr (tried @ [ToneBeep, TerminalBell, ShellCommand, VisualAlert])))))"


text \<open>
  An environment in which the alarm file exists but cannot be played, pygame and
  winsound are not installed, playsound and pydub are, and every fallback that can fail
  does: the terminal refuses the bell, and neither \<^verbatim>\<open>beep\<close> nor \<^verbatim>\<open>speaker-test\<close> runs.
\<close>

definition broken_file_env :: audio_env where
  "broken_file_env = \<lparr>path_exists = True,
     import_pygame = Some ImportError, mixer_get_init = Inr False, mixer_init = None,
     mixer_Sound = Some OtherException, sound_play = None, mixer_polls = [],
     import_playsound = None, playsound_playsound = Some OtherException,
     import_pydub = None, AudioSegment_from_file = Some OtherException, pydub_play = None,
     import_winsound = Some ImportError, winsound_PlaySound = Some OtherException,
     winsound_Beep = Some OtherException,
     platform_system = ''Linux'', stdout_bell = (\<lambda>i. Some OtherException),
     run_beep = Some FileNotFoundError, run_speaker_test = Some OtherException, run_say = None,
     on_at_beep = True, on_at_bell = True, on_in_bell_loop = (\<lambda>i. True),
     on_at_command = True\<rparr>"

section \<open>Properties of the state machine\<close>

lemma run_ears_append:
  "run_ears thr n s (es @ es') = run_ears thr n (run_ears thr n s es) es'"
  by (induction es arbitrary: s) simp_all

lemma process_frame_run_ears:
  "process_frame thr n fr s = run_ears thr n s (ears_of fr)"
  by (cases fr) (simp_all add: process_frame_def)

lemma main_loop_run_ears:
  "main_loop thr n s fs = run_ears thr n s (ear_values fs)"
  by (induction fs arbitrary: s)
     (simp_all add: ear_values_def process_frame_run_ears run_ears_append)

lemma main_loop_append:
  "main_loop thr n s (fs @ gs) = main_loop thr n (main_loop thr n s fs) gs"
  by (induction fs arbitrary: s) simp_all

lemma COUNTER_process_ear:
  "COUNTER (process_ear thr n e s) = (if e < thr then COUNTER s + 1 else 0)"
  by (simp add: process_ear_def Let_def)

lemma COUNTER_run_ears_init:
  "COUNTER (run_ears thr n init_state es) = int (length (low_suffix thr es))"
proof (induction es rule: rev_induct)
  case Nil
  show ?case by (simp add: init_state_def low_suffix_def)
next
  case (snoc e es)
  have "COUNTER (run_ears thr n init_state (es @ [e]))
      = COUNTER (process_ear thr n e (run_ears thr n init_state es))"
    by (simp add: run_ears_append)
  also have "\<dots> = (if e < thr then int (length (low_suffix thr es)) + 1 else 0)"
    by (simp add: COUNTER_process_ear snoc.IH)
  also have "\<dots> = int (length (low_suffix thr (es @ [e])))"
    by (simp add: low_suffix_def)
  finally show ?case .
qed

text \<open>
  Claim C1. After any sequence of frames, processed from the startup state, \<open>COUNTER\<close> is the
  length of the longest run of EAR values strictly below the threshold that ends at the
  last face-detected frame; frames without a face contribute no value to the sequence.
  A value at or above the threshold sets \<open>COUNTER\<close> to 0 from every state, whatever
  \<open>ALARM_ON\<close> is.
\<close>

theorem counter_is_low_suffix_length:
  "COUNTER (main_loop thr n init_state fs) = int (length (low_suffix thr (ear_values fs)))
   \<and> (\<forall>s e. thr \<le> e \<longrightarrow> COUNTER (process_ear thr n e s) = 0)"
  by (simp add: main_loop_run_ears COUNTER_run_ears_init COUNTER_process_ear)

theorem counter_is_low_suffix_length_witness:
  "COUNTER (main_loop EYE_THRESHOLD 5 init_state
      [Detection [7/10], Detection [], Detection [1/2], NoFrame, Detection [1/2]]) = 2
   \<and> EYE_THRESHOLD \<le> 7/10
   \<and> COUNTER (process_ear EYE_THRESHOLD 5 (7/10)
        \<lparr>COUNTER = 9, ALARM_ON = True, ALARM_THREAD = Some 0, threads_started = 1\<rparr>) = 0"
  using counter_is_low_suffix_length [of EYE_THRESHOLD 5
      "[Detection [7/10], Detection [], Detection [1/2], NoFrame, Detection [1/2]]"]
  by (simp add: EYE_THRESHOLD_def low_suffix_def ear_values_def)

lemma ALARM_ON_process_ear:
  "ALARM_ON (process_ear thr n e s) = (e < thr \<and> (n \<le> COUNTER s + 1 \<or> ALARM_ON s))"
  by (simp add: process_ear_def Let_def)



lemma alarm_inv_init: "0 < n \<Longrightarrow> alarm_inv n init_state"
  by (simp add: alarm_inv_def init_state_def)

lemma alarm_inv_process_ear:
  "0 < n \<Longrightarrow> alarm_inv n s \<Longrightarrow> alarm_inv n (process_ear thr n e s)"
  by (auto simp add: alarm_inv_def ALARM_ON_process_ear COUNTER_process_ear)

lemma alarm_inv_run_ears:
  "0 < n \<Longrightarrow> alarm_inv n s \<Longrightarrow> alarm_inv n (run_ears thr n s es)"
  by (induction es arbitrary: s) (simp_all add: alarm_inv_process_ear)

lemma alarm_inv_main_loop:
  "0 < n \<Longrightarrow> alarm_inv n (main_loop thr n init_state fs)"
  by (simp add: main_loop_run_ears alarm_inv_run_ears alarm_inv_init)

lemma ALARM_ON_kept_while_low:
  "ALARM_ON s \<Longrightarrow> \<forall>e\<in>set es. e < thr \<Longrightarrow> ALARM_ON (run_ears thr n s es)"
  by (induction es arbitrary: s) (simp_all add: ALARM_ON_process_ear)

text \<open>
  Claim C2. With a positive number of frames \<open>n\<close> (the program's is 100), after every
  sequence of frames processed from the startup state \<open>ALARM_ON\<close> is true exactly when
  \<open>COUNTER\<close> is at least \<open>n\<close>; and exactly when \<open>COUNTER\<close> reached \<open>n\<close> after some
  earlier frame and no EAR value at or above the threshold has been processed since.
\<close>

theorem alarm_on_iff_counter_reached:
  assumes "0 < n"
  shows "(ALARM_ON (main_loop thr n init_state fs) \<longleftrightarrow> n \<le> COUNTER (main_loop thr n init_state fs))
       \<and> (ALARM_ON (main_loop thr n init_state fs) \<longleftrightarrow>
            (\<exists>pre suf. fs = pre @ suf
               \<and> n \<le> COUNTER (main_loop thr n init_state pre)
               \<and> (\<forall>e\<in>set (ear_values suf). e < thr)))"
proof -
  let ?S = "main_loop thr n init_state fs"
  have inv: "ALARM_ON (main_loop thr n init_state gs) \<longleftrightarrow> n \<le> COUNTER (main_loop thr n init_state gs)" for gs
    using alarm_inv_main_loop [OF assms, of thr gs] by (simp add: alarm_inv_def)
  have fwd: "\<exists>pre suf. fs = pre @ suf \<and> n \<le> COUNTER (main_loop thr n init_state pre)
               \<and> (\<forall>e\<in>set (ear_values suf). e < thr)" if "ALARM_ON ?S"
  proof -
    from that have "n \<le> COUNTER ?S" by (simp add: inv)
    then have "fs = fs @ [] \<and> n \<le> COUNTER (main_loop thr n init_state fs)
               \<and> (\<forall>e\<in>set (ear_values []). e < thr)"
      by (simp add: ear_values_def)
    then show ?thesis by blast
  qed
  have bwd: "ALARM_ON ?S"
    if "fs = pre @ suf" and "n \<le> COUNTER (main_loop thr n init_state pre)"
      and "\<forall>e\<in>set (ear_values suf). e < thr" for pre suf
  proof -
    from that(2) have "ALARM_ON (main_loop thr n init_state pre)" by (simp add: inv)
    then have "ALARM_ON (run_ears thr n (main_loop thr n init_state pre) (ear_values suf))"
      using that(3) by (rule ALARM_ON_kept_while_low)
    then show ?thesis
      by (simp add: that(1) main_loop_append main_loop_run_ears [of thr n "main_loop thr n init_state pre" suf] )
  qed
  from inv fwd bwd show ?thesis by blast
qed

theorem alarm_on_iff_counter_reached_witness:
  "(0::int) < 2
   \<and> ALARM_ON (main_loop EYE_THRESHOLD 2 init_state [Detection [1/2], Detection [1/2], Detection []])
   \<and> 2 \<le> COUNTER (main_loop EYE_THRESHOLD 2 init_state [Detection [1/2], Detection [1/2], Detection []])"
  using alarm_on_iff_counter_reached [of 2 EYE_THRESHOLD "[Detection [1/2], Detection [1/2], Detection []]"]
  by (simp add: EYE_THRESHOLD_def process_frame_def process_ear_def init_state_def)

text \<open>
  Claim C3. With a positive \<open>n\<close>, in a state reached from startup, processing one EAR value
  switches \<open>ALARM_ON\<close> from false to true exactly when that value takes \<open>COUNTER\<close> from
  below \<open>n\<close> to \<open>n\<close>: not before, and not on a later frame of the same run. With threshold
  0.68 and \<open>n = 5\<close>, the EAR sequence 0.7, 0.5, 0.5, 0.5, 0.5, 0.5, 0.7 gives the counter
  trace 0, 1, 2, 3, 4, 5, 0, and the alarm is on after the value at index 5 only.
\<close>

theorem alarm_activation_timing:
  "(0 < n \<longrightarrow>
      (\<not> ALARM_ON (main_loop thr n init_state fs)
         \<and> ALARM_ON (process_ear thr n e (main_loop thr n init_state fs))
       \<longleftrightarrow> COUNTER (main_loop thr n init_state fs) < n
         \<and> COUNTER (process_ear thr n e (main_loop thr n init_state fs)) = n))
   \<and> map COUNTER (trace_loop EYE_THRESHOLD 5 init_state
        (map (\<lambda>e. Detection [e]) [7/10, 1/2, 1/2, 1/2, 1/2, 1/2, 7/10]))
      = [0, 1, 2, 3, 4, 5, 0]
   \<and> map ALARM_ON (trace_loop EYE_THRESHOLD 5 init_state
        (map (\<lambda>e. Detection [e]) [7/10, 1/2, 1/2, 1/2, 1/2, 1/2, 7/10]))
      = [False, False, False, False, False, True, False]"
proof (intro conjI impI)
  assume n: "0 < n"
  let ?s = "main_loop thr n init_state fs"
  have "ALARM_ON ?s \<longleftrightarrow> n \<le> COUNTER ?s"
    using alarm_inv_main_loop [OF n, of thr fs] by (simp add: alarm_inv_def)
  moreover have "ALARM_ON (process_ear thr n e ?s) \<longleftrightarrow> n \<le> COUNTER (process_ear thr n e ?s)"
    using alarm_inv_process_ear [OF n alarm_inv_main_loop [OF n, of thr fs], of thr e]
    by (simp add: alarm_inv_def)
  ultimately show "(\<not> ALARM_ON ?s \<and> ALARM_ON (process_ear thr n e ?s))
      \<longleftrightarrow> (COUNTER ?s < n \<and> COUNTER (process_ear thr n e ?s) = n)"
    using n by (auto simp add: COUNTER_process_ear split: if_splits)
next
  show "map COUNTER (trace_loop EYE_THRESHOLD 5 init_state
        (map (\<lambda>e. Detection [e]) [7/10, 1/2, 1/2, 1/2, 1/2, 1/2, 7/10]))
      = [0, 1, 2, 3, 4, 5, 0]"
    by (simp add: EYE_THRESHOLD_def process_frame_def process_ear_def init_state_def)
next
  show "map ALARM_ON (trace_loop EYE_THRESHOLD 5 init_state
        (map (\<lambda>e. Detection [e]) [7/10, 1/2, 1/2, 1/2, 1/2, 1/2, 7/10]))
      = [False, False, False, False, False, True, False]"
    by (simp add: EYE_THRESHOLD_def process_frame_def process_ear_def init_state_def)
qed

theorem alarm_activation_timing_witness:
  "(0::int) < 5
   \<and> \<not> ALARM_ON (main_loop EYE_THRESHOLD 5 init_state (replicate 4 (Detection [1/2])))
   \<and> ALARM_ON (process_ear EYE_THRESHOLD 5 (1/2)
         (main_loop EYE_THRESHOLD 5 init_state (replicate 4 (Detection [1/2]))))
   \<and> COUNTER (main_loop EYE_THRESHOLD 5 init_state (replicate 4 (Detection [1/2]))) < 5
   \<and> COUNTER (process_ear EYE_THRESHOLD 5 (1/2)
         (main_loop EYE_THRESHOLD 5 init_state (replicate 4 (Detection [1/2])))) = 5"
proof -
  have r: "replicate 4 (Detection [1/2]) =
      [Detection [1/2], Detection [1/2], Detection [1/2], Detection [1/2]]"
    by (simp add: numeral_eq_Suc)
  show ?thesis
    using alarm_activation_timing [of 5 EYE_THRESHOLD "replicate 4 (Detection [1/2])" "1/2"]
    unfolding r
    by (simp add: EYE_THRESHOLD_def process_frame_def process_ear_def init_state_def)
qed

text \<open>
  Claim C4. A frame in which no face is detected leaves the state as it is: \<open>COUNTER\<close> is
  neither incremented nor reset and \<open>ALARM_ON\<close> keeps its value, so an alarm that was
  active stays active; such a frame can be dropped from any run without changing the
  result.
\<close>

theorem no_face_frame_is_noop:
  "process_frame thr n (Detection []) s = s
   \<and> COUNTER (process_frame thr n (Detection []) s) = COUNTER s
   \<and> ALARM_ON (process_frame thr n (Detection []) s) = ALARM_ON s
   \<and> main_loop thr n s (fs @ Detection [] # gs) = main_loop thr n s (fs @ gs)"
  by (simp add: process_frame_def main_loop_append)



lemma frame_loop_alarm_inv: "alarm_inv NUM_CONSECUTIVE_FRAMES (frame_loop fs)"
  by (simp add: frame_loop_def NUM_CONSECUTIVE_FRAMES_def alarm_inv_main_loop)

section \<open>Properties of the eye aspect ratio\<close>

lemma sqrt_squares:
  "sqrt 16 = 4" "sqrt 25 = 5" "sqrt 64 = 8" "sqrt 144 = 12" "sqrt 169 = 13"
  by (rule real_sqrt_unique; simp)+

lemma eye_coords_six:
  "eye_coords [p0, p1, p2, p3, p4, p5] [0, 1, 2, 3, 4, 5] = Inr [p0, p1, p2, p3, p4, p5]"
  by (simp add: index_def try_then_def)

text \<open>What the function computes from six points, in the order it is given them.\<close>

lemma calculate_eye_ratio_six:
  "calculate_eye_ratio [p0, p1, p2, p3, p4, p5] [0, 1, 2, 3, 4, 5] =
     Inr (if euclidean p0 p3 > 0
          then (euclidean p1 p5 + euclidean p2 p4) / (2 * euclidean p0 p3) else 0)"
  unfolding calculate_eye_ratio_def eye_coords_six
  by (simp add: index_def try_then_def Let_def)

lemma euclidean_nonneg: "0 \<le> euclidean u v"
  by (simp add: euclidean_def)

text \<open>The result, when there is one, is never negative, and no division by zero occurs.\<close>

lemma calculate_eye_ratio_nonneg:
  "calculate_eye_ratio landmarks eye_points = Inr r \<Longrightarrow> 0 \<le> r"
  by (auto simp add: calculate_eye_ratio_def try_then_def Let_def euclidean_nonneg
      split: sum.splits if_splits)

text \<open>
  Claim C5. For six points in the documented order (outer corner, top A, inner corner,
  bottom A, top B, bottom B) the ratio should be the two lid openings top A to bottom A
  and top B to bottom B over twice the width from corner to corner, and 0 when that width
  is 0. The function measures other pairs: top A to bottom B, inner corner to top B, and
  outer corner to bottom A as the width. On the eye with corners (0,0) and (8,0) it
  returns 17/10 where the formula gives 5/4, and on an eye whose two corners coincide it
  returns 1 where the formula gives 0.
\<close>

theorem calculate_eye_ratio_pairs_other_points:
  "calculate_eye_ratio [(0, 0), (3, 4), (8, 0), (3, -4), (8, 4), (8, -8)] [0, 1, 2, 3, 4, 5]
     = Inr (17 / 10)
   \<and> ear_formula (0, 0) (3, 4) (8, 0) (3, -4) (8, 4) (8, -8) = 5 / 4
   \<and> calculate_eye_ratio [(0, 0), (0, 3), (0, 0), (3, 4), (3, 4), (4, 0)] [0, 1, 2, 3, 4, 5]
     = Inr 1
   \<and> euclidean (0, 0) (0, 0) = 0
   \<and> ear_formula (0, 0) (0, 3) (0, 0) (3, 4) (3, 4) (4, 0) = 0"
  unfolding calculate_eye_ratio_six
  by (simp add: euclidean_def ear_formula_def sqrt_squares)

section \<open>Properties of the audio back ends\<close>

lemma play_audio_file_cases:
  "play_audio_file env lib = Inr True \<or> play_audio_file env lib = Inr False"
  by (simp add: play_audio_file_def split: sum.splits option.splits)


lemma alarm_iteration_cases:
  "alarm_iteration env lib =
     Inr ((if truthy lib then [AudioFile] else []) @
       take (if truthy lib \<and> play_audio_file env lib = Inr True then 0
             else if tone_beep_try env = None then 1
             else if terminal_bell_try env = None then 2
             else if shell_command_try env = None then 3
             else 4) fallback_order)"
  using play_audio_file_cases [of env lib]
  by (auto simp add: alarm_iteration_def try_then_def fallback_order_def split: option.splits)




text \<open>With no back end selected, a turn of the alarm loop never touches the audio file.\<close>

lemma no_backend_no_file_playback:
  "alarm_iteration env None = Inr ms \<Longrightarrow> AudioFile \<notin> set ms"
  unfolding alarm_iteration_cases
  by (auto simp add: truthy_def fallback_order_def split: if_splits)

lemma missing_file_no_backend:
  "\<not> path_exists env \<Longrightarrow> check_audio_library env None = (None, None)"
  by (simp add: check_audio_library_def)

lemma broken_file_play:
  "play_audio_file_try broken_file_env (Some ''playsound'') = Inl OtherException"
  by (simp add: play_audio_file_try_def broken_file_env_def after_def)



text \<open>
  Claim C6. The selection should try pygame, playsound, pydub and winsound in this
  order, have each one try to load the alarm file, and select none when the file is
  missing or no mechanism loads it. The playsound block only imports the module (its
  comment announces a playback test that is not there), so with a file that no mechanism
  can load \<open>check_audio_library\<close> still selects playsound, where the selection as
  specified selects none; every later call of \<open>play_audio_file\<close> then fails.
\<close>

theorem check_audio_library_selects_without_loading:
  "check_audio_library broken_file_env None = (Some ''playsound'', Some ''playsound'')
   \<and> load_results broken_file_env =
       [(''pygame'', False), (''playsound'', False), (''pydub'', False), (''winsound'', False)]
   \<and> select_backend_spec broken_file_env = None
   \<and> play_audio_file broken_file_env (Some ''playsound'') = Inr False"
  by (simp add: check_audio_library_def select_backend_spec_def load_results_def
      play_audio_file_def broken_file_play)
     (simp add: broken_file_env_def after_def)





section \<open>Starting the alarm thread once\<close>




end
